theory Spec2Isabelle
  imports Main
begin

section \<open>The cache index of \<open>index_base.py\<close>\<close>

text \<open>
  \<open>IndexBase\<close> is an abstract class: \<open>has\<close>, \<open>known\<close>, \<open>add\<close>, \<open>get_index_dir\<close>,
  \<open>set_index_dir\<close> and the constructor are written in the file, while \<open>load\<close>, \<open>save\<close>
  and \<open>_initialize_index\<close> are abstract methods that a subclass supplies. The embedding
  keeps that split: the written methods are definitions over an arbitrary backend (a
  record of the three methods), and every theorem is about all backends, or about all
  backends that satisfy a stated condition.
\<close>

subsection \<open>Data\<close>

text \<open>
  The value \<open>datetime.datetime.now()\<close> returns: a naive local time with the seven fields
  of Python's \<open>datetime\<close>, the last of them the microseconds.
\<close>

record datetime =
  year :: nat
  month :: nat
  day :: nat
  hour :: nat
  minute :: nat
  second :: nat
  microsecond :: nat

text \<open>\<open>CacheEntry = namedtuple("CacheEntry", ["identifier", "timestamp"])\<close>\<close>

record CacheEntry =
  "identifier" :: string
  timestamp :: datetime

text \<open>
  An attribute of a Python object is either missing (reading it raises
  \<open>AttributeError\<close>) or bound to a value. A location descriptor is any value or Python's
  \<open>None\<close>, so it is a \<open>'d option\<close> whose \<open>None\<close> is Python's.
\<close>

datatype 'a attribute = Missing | Bound 'a

datatype attribute_error = AttributeError

text \<open>
  The registry object: the attribute \<open>index_dir\<close> that the class itself assigns, and
  \<open>backing\<close>, everything the subclass owns (its own attributes and the storage it
  reaches).
\<close>

record ('d, 's) registry =
  index_dir :: "'d option attribute"
  backing :: 's

text \<open>
  The abstract methods. Each receives the object (Python's \<open>self\<close>) and gives an outcome
  and the object afterwards; the outcome is \<open>Inl e\<close> when the method raises \<open>e\<close>. The
  object comes back in both cases, since an exception does not undo what the method did
  before raising. The sequence \<open>load\<close> returns is a list of its own, as one read from
  storage is: the object keeps no reference to it, so appending to it changes nothing
  else.
\<close>

record ('d, 's, 'e) backend =
  load :: "('d, 's) registry \<Rightarrow> ('e + CacheEntry list) \<times> ('d, 's) registry"
  save :: "('d, 's) registry \<Rightarrow> CacheEntry list \<Rightarrow> ('e + unit) \<times> ('d, 's) registry"
  initialize_index :: "('d, 's) registry \<Rightarrow> ('e + unit) \<times> ('d, 's) registry"

text \<open>
  The calls the written methods make to the abstract ones, in order. \<open>Save\<close> carries the
  sequence that was passed.
\<close>

datatype call = Load | Save "CacheEntry list" | InitializeIndex

text \<open>
  What a method of the class runs in: the object, the clock that \<open>datetime.now()\<close>
  reads (\<open>clock w n\<close> is the value of the \<open>n\<close>-th reading, \<open>ticks\<close> counts the readings
  made so far) and the log of calls to the abstract methods.
\<close>

record ('d, 's) world =
  obj :: "('d, 's) registry"
  clock :: "nat \<Rightarrow> datetime"
  ticks :: nat
  calls :: "call list"

subsection \<open>Operations\<close>

definition TIME_FORMAT :: string where
  "TIME_FORMAT = ''%Y-%m-%d:%H:%M:%S''"

text \<open>\<open>current_time()\<close>: one reading of the clock.\<close>

definition current_time :: "('d, 's) world \<Rightarrow> datetime \<times> ('d, 's) world" where
  "current_time w = (clock w (ticks w), w\<lparr>ticks := Suc (ticks w)\<rparr>)"

text \<open>\<open>self.load()\<close>, \<open>self.save(index)\<close> and \<open>self._initialize_index()\<close> as the class calls them.\<close>

definition call_load ::
  "('d, 's, 'e) backend \<Rightarrow> ('d, 's) world \<Rightarrow> ('e + CacheEntry list) \<times> ('d, 's) world" where
  "call_load be w =
     (case load be (obj w) of
        (r, ob) \<Rightarrow> (r, w\<lparr>obj := ob, calls := calls w @ [Load]\<rparr>))"

definition call_save ::
  "('d, 's, 'e) backend \<Rightarrow> CacheEntry list \<Rightarrow> ('d, 's) world \<Rightarrow> ('e + unit) \<times> ('d, 's) world" where
  "call_save be index w =
     (case save be (obj w) index of
        (r, ob) \<Rightarrow> (r, w\<lparr>obj := ob, calls := calls w @ [Save index]\<rparr>))"

definition call_initialize_index ::
  "('d, 's, 'e) backend \<Rightarrow> ('d, 's) world \<Rightarrow> ('e + unit) \<times> ('d, 's) world" where
  "call_initialize_index be w =
     (case initialize_index be (obj w) of
        (r, ob) \<Rightarrow> (r, w\<lparr>obj := ob, calls := calls w @ [InitializeIndex]\<rparr>))"

text \<open>\<open>get_index_dir\<close>: \<open>return self.index_dir\<close>.\<close>

definition get_index_dir :: "('d, 's) world \<Rightarrow> attribute_error + 'd option" where
  "get_index_dir w =
     (case index_dir (obj w) of Missing \<Rightarrow> Inl AttributeError | Bound d \<Rightarrow> Inr d)"

text \<open>\<open>set_index_dir\<close>: \<open>self.index_dir = index_dir; self._initialize_index()\<close>.\<close>

definition set_index_dir ::
  "('d, 's, 'e) backend \<Rightarrow> 'd option \<Rightarrow> ('d, 's) world \<Rightarrow> ('e + unit) \<times> ('d, 's) world" where
  "set_index_dir be d w =
     call_initialize_index be (w\<lparr>obj := (obj w)\<lparr>index_dir := Bound d\<rparr>\<rparr>)"

text \<open>
  \<open>__init__(self, index_dir=None)\<close>: \<open>self.set_index_dir(index_dir)\<close>. The argument is
  optional; left out, it is Python's \<open>None\<close>.
\<close>

datatype 'a argument = Omitted | Passed 'a

definition IndexBase_init ::
  "('d, 's, 'e) backend \<Rightarrow> 'd option argument \<Rightarrow> ('d, 's) world \<Rightarrow> ('e + unit) \<times> ('d, 's) world" where
  "IndexBase_init be arg w =
     set_index_dir be (case arg of Omitted \<Rightarrow> None | Passed d \<Rightarrow> d) w"

text \<open>
  \<open>has\<close>: \<open>index = self.load(); return any(entry.identifier == identifier for entry in index)\<close>.
\<close>

definition has ::
  "('d, 's, 'e) backend \<Rightarrow> string \<Rightarrow> ('d, 's) world \<Rightarrow> ('e + bool) \<times> ('d, 's) world" where
  "has be x w =
     (case call_load be w of
        (Inl e, w') \<Rightarrow> (Inl e, w')
      | (Inr index, w') \<Rightarrow> (Inr (list_ex (\<lambda>entry. identifier entry = x) index), w'))"

text \<open>\<open>known\<close>: \<open>return {entry.identifier for entry in self.load()}\<close>.\<close>

definition known ::
  "('d, 's, 'e) backend \<Rightarrow> ('d, 's) world \<Rightarrow> ('e + string set) \<times> ('d, 's) world" where
  "known be w =
     (case call_load be w of
        (Inl e, w') \<Rightarrow> (Inl e, w')
      | (Inr index, w') \<Rightarrow> (Inr (set (map identifier index)), w'))"

text \<open>
  \<open>add\<close>: \<open>index = self.load(); entry = CacheEntry(identifier, current_time());
  index.append(entry); self.save(index)\<close>. The list is a value here: what \<open>save\<close> receives
  is the loaded sequence with the new entry at its end.
\<close>

definition add ::
  "('d, 's, 'e) backend \<Rightarrow> string \<Rightarrow> ('d, 's) world \<Rightarrow> ('e + unit) \<times> ('d, 's) world" where
  "add be x w =
     (case call_load be w of
        (Inl e, w1) \<Rightarrow> (Inl e, w1)
      | (Inr index, w1) \<Rightarrow>
          (case current_time w1 of
             (t, w2) \<Rightarrow> call_save be (index @ [\<lparr>identifier = x, timestamp = t\<rparr>]) w2))"

text \<open>
  A caller that makes the calls \<open>add(x)\<close> for the \<open>x\<close> of a list, in order; an exception
  ends it, as it would end a Python \<open>for\<close> loop around the call.
\<close>

fun add_all ::
  "('d, 's, 'e) backend \<Rightarrow> string list \<Rightarrow> ('d, 's) world \<Rightarrow> ('e + unit) \<times> ('d, 's) world" where
  "add_all be [] w = (Inr (), w)"
| "add_all be (x # xs) w =
     (case add be x w of
        (Inl e, w') \<Rightarrow> (Inl e, w')
      | (Inr u, w') \<Rightarrow> add_all be xs w')"


subsection \<open>What the class expects of a backend\<close>

text \<open>
  The class says nothing about the abstract methods but their docstrings ("Load entire
  index", "Save entire index", "Initialize index file if necessary"). The properties
  that relate one call of the class to the next need more, and name it here:
  \<^item> \<open>load_after_save\<close>: when \<open>save(index)\<close> has returned, \<open>load()\<close> returns that \<open>index\<close>
    and leaves the object as it is;
  \<^item> \<open>load_read_only\<close>: \<open>load()\<close> leaves the object as it is, whatever its outcome;
  \<^item> \<open>initialize_keeps_index_dir\<close>: \<open>_initialize_index()\<close> does not rebind \<open>index_dir\<close>.
\<close>

definition load_after_save :: "('d, 's, 'e) backend \<Rightarrow> bool" where
  "load_after_save be \<longleftrightarrow>
     (\<forall>ob index ob'. save be ob index = (Inr (), ob') \<longrightarrow> load be ob' = (Inr index, ob'))"

definition load_read_only :: "('d, 's, 'e) backend \<Rightarrow> bool" where
  "load_read_only be \<longleftrightarrow> (\<forall>ob. snd (load be ob) = ob)"

definition initialize_keeps_index_dir :: "('d, 's, 'e) backend \<Rightarrow> bool" where
  "initialize_keeps_index_dir be \<longleftrightarrow>
     (\<forall>ob. index_dir (snd (initialize_index be ob)) = index_dir ob)"

subsection \<open>Formatting under \<open>TIME_FORMAT\<close>\<close>

text \<open>
  No method of the class applies \<open>TIME_FORMAT\<close>; a backend that writes timestamps as
  text would, with \<open>timestamp.strftime(TIME_FORMAT)\<close>. \<open>strftime\<close> is Python's library,
  not this repository's. It is modelled here from its documentation, and only where
  that is sure: for the six directives of \<open>TIME_FORMAT\<close> (\<open>%Y\<close> the year in four digits,
  \<open>%m\<close>, \<open>%d\<close>, \<open>%H\<close>, \<open>%M\<close>, \<open>%S\<close> in two, padded with zeros) and for a time that
  is a Python \<open>datetime\<close> with a year from 1000 to 9999 (below 1000 the platforms differ
  on the padding of \<open>%Y\<close>). For any other directive and any other time the model gives
  \<open>None\<close>: not modelled.
\<close>

definition is_leap :: "nat \<Rightarrow> bool" where
  "is_leap y \<longleftrightarrow> y mod 4 = 0 \<and> (y mod 100 \<noteq> 0 \<or> y mod 400 = 0)"

definition days_in_month :: "nat \<Rightarrow> nat \<Rightarrow> nat" where
  "days_in_month y m =
     (if m = 2 then (if is_leap y then 29 else 28)
      else if m = 4 \<or> m = 6 \<or> m = 9 \<or> m = 11 then 30
      else 31)"

text \<open>
  The times the model covers: the values a Python \<open>datetime\<close> can have, with the year
  at 1000 or above.
\<close>

definition datetime_in_range :: "datetime \<Rightarrow> bool" where
  "datetime_in_range t \<longleftrightarrow>
     1000 \<le> year t \<and> year t \<le> 9999 \<and> 1 \<le> month t \<and> month t \<le> 12 \<and>
     1 \<le> day t \<and> day t \<le> days_in_month (year t) (month t) \<and>
     hour t < 24 \<and> minute t < 60 \<and> second t < 60 \<and> microsecond t < 1000000"

definition digit :: "nat \<Rightarrow> char" where
  "digit n = ''0123456789'' ! (n mod 10)"

definition two_digits :: "nat \<Rightarrow> string" where
  "two_digits n = [digit (n div 10), digit n]"

definition four_digits :: "nat \<Rightarrow> string" where
  "four_digits n = [digit (n div 1000), digit (n div 100), digit (n div 10), digit n]"

definition directive :: "char \<Rightarrow> datetime \<Rightarrow> string option" where
  "directive c t =
     (if c = CHR ''Y'' then Some (four_digits (year t))
      else if c = CHR ''m'' then Some (two_digits (month t))
      else if c = CHR ''d'' then Some (two_digits (day t))
      else if c = CHR ''H'' then Some (two_digits (hour t))
      else if c = CHR ''M'' then Some (two_digits (minute t))
      else if c = CHR ''S'' then Some (two_digits (second t))
      else None)"

fun format_fields :: "string \<Rightarrow> datetime \<Rightarrow> string option" where
  "format_fields [] t = Some []"
| "format_fields [c] t = (if c = CHR ''%'' then None else Some [c])"
| "format_fields (c # c' # fs) t =
     (if c = CHR ''%''
      then (case directive c' t of
              None \<Rightarrow> None
            | Some s \<Rightarrow> map_option (\<lambda>r. s @ r) (format_fields fs t))
      else map_option (\<lambda>r. c # r) (format_fields (c' # fs) t))"

definition strftime :: "string \<Rightarrow> datetime \<Rightarrow> string option" where
  "strftime fmt t = (if datetime_in_range t then format_fields fmt t else None)"

subsection \<open>A backend to run the class on\<close>

text \<open>
  A subclass for the examples below: it keeps one index for each location in a table,
  needs a location that is not \<open>None\<close>, and refuses to write while \<open>locked\<close>.
  \<open>_initialize_index\<close> writes an empty index where the location has none yet.
\<close>

datatype storage_error = StorageUnavailable | StorageUnwritable

record 'd storage =
  files :: "'d \<Rightarrow> CacheEntry list option"
  locked :: bool

definition table_load ::
  "('d, 'd storage) registry \<Rightarrow> (storage_error + CacheEntry list) \<times> ('d, 'd storage) registry" where
  "table_load ob =
     (case index_dir ob of
        Bound (Some d) \<Rightarrow>
          (case files (backing ob) d of
             Some index \<Rightarrow> (Inr index, ob)
           | None \<Rightarrow> (Inl StorageUnavailable, ob))
      | _ \<Rightarrow> (Inl StorageUnavailable, ob))"

definition table_save ::
  "('d, 'd storage) registry \<Rightarrow> CacheEntry list \<Rightarrow> (storage_error + unit) \<times> ('d, 'd storage) registry" where
  "table_save ob index =
     (case index_dir ob of
        Bound (Some d) \<Rightarrow>
          (if locked (backing ob) then (Inl StorageUnwritable, ob)
           else (Inr (), ob\<lparr>backing := (backing ob)\<lparr>files := (files (backing ob))(d \<mapsto> index)\<rparr>\<rparr>))
      | _ \<Rightarrow> (Inl StorageUnwritable, ob))"

definition table_initialize_index ::
  "('d, 'd storage) registry \<Rightarrow> (storage_error + unit) \<times> ('d, 'd storage) registry" where
  "table_initialize_index ob =
     (case index_dir ob of
        Bound (Some d) \<Rightarrow>
          (case files (backing ob) d of
             Some index \<Rightarrow> (Inr (), ob)
           | None \<Rightarrow> table_save ob [])
      | _ \<Rightarrow> (Inl StorageUnavailable, ob))"

definition table_backend :: "('d, 'd storage, storage_error) backend" where
  "table_backend =
     \<lparr>load = table_load, save = table_save, initialize_index = table_initialize_index\<rparr>"

text \<open>
  A clock whose readings are one second apart and carry microseconds, and the worlds
  the examples start from: an object that \<open>__init__\<close> has not run on yet, over empty
  storage (locked or not), and the same after \<open>IndexBase("cache")\<close>.
\<close>

definition example_clock :: "nat \<Rightarrow> datetime" where
  "example_clock n =
     \<lparr>year = 2024, month = 1, day = 2, hour = 3, minute = 4, second = n, microsecond = 250000\<rparr>"

definition new_world :: "bool \<Rightarrow> (string, string storage) world" where
  "new_world l =
     \<lparr>obj = \<lparr>index_dir = Missing, backing = \<lparr>files = (\<lambda>d. None), locked = l\<rparr>\<rparr>,
      clock = example_clock, ticks = 0, calls = []\<rparr>"

definition empty_world :: "(string, string storage) world" where
  "empty_world = snd (IndexBase_init table_backend (Passed (Some ''cache'')) (new_world False))"

text \<open>The same when the storage has since been locked.\<close>

definition locked_world :: "(string, string storage) world" where
  "locked_world =
     empty_world\<lparr>obj := (obj empty_world)\<lparr>backing := (backing (obj empty_world))\<lparr>locked := True\<rparr>\<rparr>\<rparr>"

section \<open>Properties\<close>

subsection \<open>What each method does, call by call\<close>

lemma call_load_eq:
  "call_load be w =
     (fst (load be (obj w)), w\<lparr>obj := snd (load be (obj w)), calls := calls w @ [Load]\<rparr>)"
  by (simp add: call_load_def split: prod.split)

lemma call_save_eq:
  "call_save be index w =
     (fst (save be (obj w) index),
      w\<lparr>obj := snd (save be (obj w) index), calls := calls w @ [Save index]\<rparr>)"
  by (simp add: call_save_def split: prod.split)

lemma call_initialize_index_eq:
  "call_initialize_index be w =
     (fst (initialize_index be (obj w)),
      w\<lparr>obj := snd (initialize_index be (obj w)), calls := calls w @ [InitializeIndex]\<rparr>)"
  by (simp add: call_initialize_index_def split: prod.split)

lemma set_index_dir_eq:
  "set_index_dir be d w =
     (fst (initialize_index be ((obj w)\<lparr>index_dir := Bound d\<rparr>)),
      w\<lparr>obj := snd (initialize_index be ((obj w)\<lparr>index_dir := Bound d\<rparr>)),
        calls := calls w @ [InitializeIndex]\<rparr>)"
  by (simp add: set_index_dir_def call_initialize_index_eq)

lemma has_world:
  "snd (has be x w) = w\<lparr>obj := snd (load be (obj w)), calls := calls w @ [Load]\<rparr>"
  by (simp add: has_def call_load_eq split: sum.split)

lemma known_world:
  "snd (known be w) = w\<lparr>obj := snd (load be (obj w)), calls := calls w @ [Load]\<rparr>"
  by (simp add: known_def call_load_eq split: sum.split)

lemma has_loaded:
  assumes "load be (obj w) = (Inr index, ob)"
  shows "has be x w =
           (Inr (\<exists>entry \<in> set index. identifier entry = x),
            w\<lparr>obj := ob, calls := calls w @ [Load]\<rparr>)"
  using assms by (simp add: has_def call_load_eq list_ex_iff)

lemma known_loaded:
  assumes "load be (obj w) = (Inr index, ob)"
  shows "known be w = (Inr (identifier ` set index), w\<lparr>obj := ob, calls := calls w @ [Load]\<rparr>)"
  using assms by (simp add: known_def call_load_eq)

lemma add_loaded:
  assumes "load be (obj w) = (Inr index, ob)"
  shows "add be x w =
           (fst (save be ob (index @ [\<lparr>identifier = x, timestamp = clock w (ticks w)\<rparr>])),
            w\<lparr>obj := snd (save be ob (index @ [\<lparr>identifier = x, timestamp = clock w (ticks w)\<rparr>])),
              ticks := Suc (ticks w),
              calls := calls w @ [Load, Save (index @ [\<lparr>identifier = x, timestamp = clock w (ticks w)\<rparr>])]\<rparr>)"
  using assms by (simp add: add_def call_load_eq call_save_eq current_time_def)



subsection \<open>With a backend whose \<open>load\<close> returns what was saved\<close>

lemma add_returned:
  assumes las: "load_after_save be"
    and ld: "load be (obj w) = (Inr index, ob)"
    and ok: "add be x w = (Inr (), w')"
  shows "load be (obj w') = (Inr (index @ [\<lparr>identifier = x, timestamp = clock w (ticks w)\<rparr>]), obj w')"
    and "clock w' = clock w" and "ticks w' = Suc (ticks w)"
proof -
  let ?new = "index @ [\<lparr>identifier = x, timestamp = clock w (ticks w)\<rparr>]"
  from ok have w': "w' = w\<lparr>obj := snd (save be ob ?new), ticks := Suc (ticks w),
      calls := calls w @ [Load, Save ?new]\<rparr>"
    and r: "fst (save be ob ?new) = Inr ()"
    by (simp_all add: add_loaded [OF ld])
  from r have "save be ob ?new = (Inr (), obj w')"
    by (simp add: w' prod_eq_iff)
  with las show "load be (obj w') = (Inr ?new, obj w')"
    unfolding load_after_save_def by blast
  show "clock w' = clock w" and "ticks w' = Suc (ticks w)"
    by (simp_all add: w')
qed



subsection \<open>The table backend\<close>

lemma table_backend_sel:
  "load table_backend = table_load" "save table_backend = table_save"
  "initialize_index table_backend = table_initialize_index"
  by (simp_all add: table_backend_def)


lemma table_load_after_save: "load_after_save (table_backend :: ('d, 'd storage, storage_error) backend)"
  by (auto simp: load_after_save_def table_backend_def table_save_def table_load_def
      split: attribute.splits option.splits if_splits)

lemma table_load_read_only: "load_read_only (table_backend :: ('d, 'd storage, storage_error) backend)"
  by (auto simp: load_read_only_def table_backend_def table_load_def
      split: attribute.splits option.splits)

lemma table_initialize_keeps_index_dir:
  "initialize_keeps_index_dir (table_backend :: ('d, 'd storage, storage_error) backend)"
  by (auto simp: initialize_keeps_index_dir_def table_backend_def table_initialize_index_def
      table_save_def split: attribute.splits option.splits)

lemma table_add:
  "index_dir (obj w) = Bound (Some d) \<Longrightarrow> files (backing (obj w)) d = Some index \<Longrightarrow>
   \<not> locked (backing (obj w)) \<Longrightarrow>
   add table_backend x w =
     (Inr (), w\<lparr>obj := (obj w)\<lparr>backing := (backing (obj w))\<lparr>files := (files (backing (obj w)))
                   (d \<mapsto> index @ [\<lparr>identifier = x, timestamp = clock w (ticks w)\<rparr>])\<rparr>\<rparr>,
               ticks := Suc (ticks w),
               calls := calls w @ [Load, Save (index @ [\<lparr>identifier = x, timestamp = clock w (ticks w)\<rparr>])]\<rparr>)"
  by (simp add: add_def call_load_eq call_save_eq current_time_def table_backend_def
      table_load_def table_save_def)

lemma empty_world_eq:
  "empty_world = \<lparr>obj = \<lparr>index_dir = Bound (Some ''cache''),
       backing = \<lparr>files = (\<lambda>d. None)(''cache'' \<mapsto> []), locked = False\<rparr>\<rparr>,
    clock = example_clock, ticks = 0, calls = [InitializeIndex]\<rparr>"
  by (simp add: empty_world_def IndexBase_init_def set_index_dir_def call_initialize_index_eq
      new_world_def table_backend_def table_initialize_index_def table_save_def)

lemma locked_world_eq:
  "locked_world = \<lparr>obj = \<lparr>index_dir = Bound (Some ''cache''),
       backing = \<lparr>files = (\<lambda>d. None)(''cache'' \<mapsto> []), locked = True\<rparr>\<rparr>,
    clock = example_clock, ticks = 0, calls = [InitializeIndex]\<rparr>"
  by (simp add: locked_world_def empty_world_eq)

lemma failed_world_eq:
  "set_index_dir table_backend (Some ''cache'') (new_world True) =
     (Inl StorageUnwritable,
      \<lparr>obj = \<lparr>index_dir = Bound (Some ''cache''),
               backing = \<lparr>files = (\<lambda>d. None), locked = True\<rparr>\<rparr>,
        clock = example_clock, ticks = 0, calls = [InitializeIndex]\<rparr>)"
  by (simp add: set_index_dir_eq new_world_def table_backend_sel table_initialize_index_def
      table_save_def)

lemma world_after_add:
  "snd (add table_backend ''a'' empty_world) =
     \<lparr>obj = \<lparr>index_dir = Bound (Some ''cache''),
          backing = \<lparr>files = (\<lambda>d. None)(''cache'' \<mapsto> [\<lparr>identifier = ''a'', timestamp = example_clock 0\<rparr>]),
                     locked = False\<rparr>\<rparr>,
      clock = example_clock, ticks = 1, calls = [InitializeIndex, Load,
        Save [\<lparr>identifier = ''a'', timestamp = example_clock 0\<rparr>]]\<rparr>"
  by (simp add: empty_world_eq table_add)

lemma world_after_adds:
  "add_all table_backend [''file1'', ''file2'', ''file1''] empty_world =
     (Inr (),
      \<lparr>obj = \<lparr>index_dir = Bound (Some ''cache''),
          backing = \<lparr>files = (\<lambda>d. None)(''cache'' \<mapsto>
                       [\<lparr>identifier = ''file1'', timestamp = example_clock 0\<rparr>,
                        \<lparr>identifier = ''file2'', timestamp = example_clock 1\<rparr>,
                        \<lparr>identifier = ''file1'', timestamp = example_clock 2\<rparr>]),
                     locked = False\<rparr>\<rparr>,
      clock = example_clock, ticks = 3,
      calls = [InitializeIndex,
        Load, Save [\<lparr>identifier = ''file1'', timestamp = example_clock 0\<rparr>],
        Load, Save [\<lparr>identifier = ''file1'', timestamp = example_clock 0\<rparr>,
                    \<lparr>identifier = ''file2'', timestamp = example_clock 1\<rparr>],
        Load, Save [\<lparr>identifier = ''file1'', timestamp = example_clock 0\<rparr>,
                    \<lparr>identifier = ''file2'', timestamp = example_clock 1\<rparr>,
                    \<lparr>identifier = ''file1'', timestamp = example_clock 2\<rparr>]]\<rparr>)"
  by (simp add: empty_world_eq table_add numeral_2_eq_2 numeral_3_eq_3)


subsection \<open>\<open>add\<close>\<close>

text \<open>
  C1. When \<open>load\<close> returns a sequence, \<open>add(x)\<close> reads the clock once and calls \<open>save\<close>
  with that sequence followed by the one new entry \<open>(x, current_time())\<close>: the calls it
  makes are \<open>load\<close> and then that \<open>save\<close>, its outcome is the outcome of \<open>save\<close>, and it
  looks at no entry of the sequence. So with a backend whose \<open>load\<close> returns what was
  saved, two calls \<open>add(x)\<close> that return leave two entries for \<open>x\<close> behind everything
  that was there.
\<close>

theorem add_appends_one_entry:
  assumes "load be (obj w) = (Inr index, ob)"
  shows "add be x w =
           (fst (save be ob (index @ [\<lparr>identifier = x, timestamp = clock w (ticks w)\<rparr>])),
            w\<lparr>obj := snd (save be ob (index @ [\<lparr>identifier = x, timestamp = clock w (ticks w)\<rparr>])),
              ticks := Suc (ticks w),
              calls := calls w @
                [Load, Save (index @ [\<lparr>identifier = x, timestamp = clock w (ticks w)\<rparr>])]\<rparr>) \<and>
         (load_after_save be \<and> add be x w = (Inr (), w1) \<and> add be x w1 = (Inr (), w2) \<longrightarrow>
          load be (obj w2) =
            (Inr (index @ [\<lparr>identifier = x, timestamp = clock w (ticks w)\<rparr>,
                           \<lparr>identifier = x, timestamp = clock w (Suc (ticks w))\<rparr>]),
             obj w2))"
proof (intro conjI impI)
  show "add be x w =
           (fst (save be ob (index @ [\<lparr>identifier = x, timestamp = clock w (ticks w)\<rparr>])),
            w\<lparr>obj := snd (save be ob (index @ [\<lparr>identifier = x, timestamp = clock w (ticks w)\<rparr>])),
              ticks := Suc (ticks w),
              calls := calls w @
                [Load, Save (index @ [\<lparr>identifier = x, timestamp = clock w (ticks w)\<rparr>])]\<rparr>)"
    by (rule add_loaded [OF assms])
next
  assume h: "load_after_save be \<and> add be x w = (Inr (), w1) \<and> add be x w1 = (Inr (), w2)"
  then have las: "load_after_save be" and a1: "add be x w = (Inr (), w1)"
    and a2: "add be x w1 = (Inr (), w2)" by simp_all
  note first = add_returned [OF las assms a1]
  note second = add_returned [OF las first(1) a2]
  from second(1) first(2,3)
  show "load be (obj w2) =
            (Inr (index @ [\<lparr>identifier = x, timestamp = clock w (ticks w)\<rparr>,
                           \<lparr>identifier = x, timestamp = clock w (Suc (ticks w))\<rparr>]),
             obj w2)"
    by simp
qed

theorem add_appends_one_entry_witness:
  "load table_backend (obj empty_world) = (Inr [], obj empty_world) \<and>
   load_after_save (table_backend :: (string, string storage, storage_error) backend) \<and>
   fst (add table_backend ''a'' empty_world) = Inr () \<and>
   fst (add table_backend ''a'' (snd (add table_backend ''a'' empty_world))) = Inr () \<and>
   fst (load table_backend
     (obj (snd (add table_backend ''a'' (snd (add table_backend ''a'' empty_world)))))) =
     Inr [\<lparr>identifier = ''a'', timestamp = example_clock 0\<rparr>,
          \<lparr>identifier = ''a'', timestamp = example_clock 1\<rparr>]"
proof -
  let ?w1 = "snd (add table_backend ''a'' empty_world)"
  let ?w2 = "snd (add table_backend ''a'' ?w1)"
  have ld: "load table_backend (obj empty_world) = (Inr [], obj empty_world)"
    by (simp add: empty_world_eq table_backend_def table_load_def)
  have r1: "fst (add table_backend ''a'' empty_world) = Inr ()"
    by (simp add: empty_world_eq table_add)
  have r2: "fst (add table_backend ''a'' ?w1) = Inr ()"
    by (simp add: empty_world_eq table_add)
  have a1: "add table_backend ''a'' empty_world = (Inr (), ?w1)"
    using r1 by (simp add: prod_eq_iff)
  have a2: "add table_backend ''a'' ?w1 = (Inr (), ?w2)"
    using r2 by (simp add: prod_eq_iff)
  have c: "clock empty_world (ticks empty_world) = example_clock 0"
    "clock empty_world (Suc (ticks empty_world)) = example_clock 1"
    by (simp_all add: empty_world_eq)
  from add_appends_one_entry [OF ld, of "''a''" ?w1 ?w2] table_load_after_save a1 a2
  have "load table_backend (obj ?w2) =
      (Inr ([] @ [\<lparr>identifier = ''a'', timestamp = clock empty_world (ticks empty_world)\<rparr>,
                  \<lparr>identifier = ''a'', timestamp = clock empty_world (Suc (ticks empty_world))\<rparr>]),
       obj ?w2)"
    by blast
  then show ?thesis
    using ld r1 r2 table_load_after_save by (simp add: c)
qed

subsection \<open>\<open>has\<close> and \<open>known\<close>\<close>

text \<open>
  C2. When \<open>load\<close> returns a sequence, \<open>has(x)\<close> returns true exactly when some entry of
  that sequence has the identifier \<open>x\<close>. Whatever the outcome of \<open>load\<close>, the one call
  \<open>has\<close> makes to an abstract method is that \<open>load\<close>: it never calls \<open>save\<close>.
\<close>

theorem has_iff_some_entry:
  "(load be (obj w) = (Inr index, ob) \<longrightarrow>
      has be x w =
        (Inr (\<exists>entry \<in> set index. identifier entry = x),
         w\<lparr>obj := ob, calls := calls w @ [Load]\<rparr>)) \<and>
   calls (snd (has be x w)) = calls w @ [Load]"
  by (simp add: has_loaded has_world)

theorem has_iff_some_entry_witness:
  "load table_backend (obj (snd (add table_backend ''a'' empty_world))) =
     (Inr [\<lparr>identifier = ''a'', timestamp = example_clock 0\<rparr>],
      obj (snd (add table_backend ''a'' empty_world))) \<and>
   fst (has table_backend ''a'' (snd (add table_backend ''a'' empty_world))) = Inr True \<and>
   fst (has table_backend ''b'' (snd (add table_backend ''a'' empty_world))) = Inr False \<and>
   calls (snd (has table_backend ''b'' (snd (add table_backend ''a'' empty_world)))) =
     [InitializeIndex, Load, Save [\<lparr>identifier = ''a'', timestamp = example_clock 0\<rparr>], Load]"
proof -
  let ?w = "snd (add table_backend ''a'' empty_world)"
  have ld: "load table_backend (obj ?w) =
      (Inr [\<lparr>identifier = ''a'', timestamp = example_clock 0\<rparr>], obj ?w)"
    by (simp add: world_after_add table_backend_sel table_load_def)
  have c: "calls ?w = [InitializeIndex, Load, Save [\<lparr>identifier = ''a'', timestamp = example_clock 0\<rparr>]]"
    by (simp add: world_after_add)
  from has_iff_some_entry [of table_backend ?w _ _ "''a''"]
    has_iff_some_entry [of table_backend ?w _ _ "''b''"] ld c
  show ?thesis by simp
qed

text \<open>
  C3. When \<open>load\<close> returns a sequence, \<open>known()\<close> returns the set of the identifiers of
  its entries (a set: an identifier that occurs twice is in it once). Whatever the
  outcome of \<open>load\<close>, the one call \<open>known\<close> makes to an abstract method is that \<open>load\<close>:
  it never calls \<open>save\<close>.
\<close>

theorem known_is_identifier_set:
  "(load be (obj w) = (Inr index, ob) \<longrightarrow>
      known be w = (Inr (identifier ` set index), w\<lparr>obj := ob, calls := calls w @ [Load]\<rparr>)) \<and>
   calls (snd (known be w)) = calls w @ [Load]"
  by (simp add: known_loaded known_world)

theorem known_is_identifier_set_witness:
  "load table_backend (obj (snd (add_all table_backend [''file1'', ''file2'', ''file1''] empty_world))) =
     (Inr [\<lparr>identifier = ''file1'', timestamp = example_clock 0\<rparr>,
           \<lparr>identifier = ''file2'', timestamp = example_clock 1\<rparr>,
           \<lparr>identifier = ''file1'', timestamp = example_clock 2\<rparr>],
      obj (snd (add_all table_backend [''file1'', ''file2'', ''file1''] empty_world))) \<and>
   fst (known table_backend (snd (add_all table_backend [''file1'', ''file2'', ''file1''] empty_world))) =
     Inr {''file1'', ''file2''}"
proof -
  let ?w = "snd (add_all table_backend [''file1'', ''file2'', ''file1''] empty_world)"
  have ld: "load table_backend (obj ?w) =
     (Inr [\<lparr>identifier = ''file1'', timestamp = example_clock 0\<rparr>,
           \<lparr>identifier = ''file2'', timestamp = example_clock 1\<rparr>,
           \<lparr>identifier = ''file1'', timestamp = example_clock 2\<rparr>], obj ?w)"
    unfolding world_after_adds by (simp add: table_backend_sel table_load_def)
  from known_is_identifier_set [of table_backend ?w] ld
  show ?thesis by auto
qed

subsection \<open>\<open>add\<close> and then \<open>has\<close> or \<open>known\<close>\<close>





subsection \<open>\<open>set_index_dir\<close> and \<open>get_index_dir\<close>\<close>

text \<open>
  C6. Every call of \<open>set_index_dir(d)\<close> makes one call of \<open>_initialize_index\<close>, on the
  object with \<open>index_dir\<close> already bound to \<open>d\<close>, whether that call returns or raises,
  and so does a second call with another descriptor. When \<open>_initialize_index\<close> does not
  itself rebind \<open>index_dir\<close>, \<open>get_index_dir()\<close> afterwards returns \<open>d\<close>, and after the
  second call the second descriptor.
\<close>

theorem get_after_set_index_dir:
  "calls (snd (set_index_dir be d w)) = calls w @ [InitializeIndex] \<and>
   calls (snd (set_index_dir be d' (snd (set_index_dir be d w)))) =
     calls w @ [InitializeIndex, InitializeIndex] \<and>
   obj (snd (set_index_dir be d w)) = snd (initialize_index be ((obj w)\<lparr>index_dir := Bound d\<rparr>)) \<and>
   (initialize_keeps_index_dir be \<longrightarrow>
      get_index_dir (snd (set_index_dir be d w)) = Inr d \<and>
      get_index_dir (snd (set_index_dir be d' (snd (set_index_dir be d w)))) = Inr d')"
  by (simp add: set_index_dir_eq get_index_dir_def initialize_keeps_index_dir_def)

theorem get_after_set_index_dir_witness:
  "initialize_keeps_index_dir (table_backend :: (string, string storage, storage_error) backend) \<and>
   get_index_dir (snd (set_index_dir table_backend (Some ''cache'') (new_world False))) =
     Inr (Some ''cache'') \<and>
   get_index_dir (snd (set_index_dir table_backend (Some ''other'')
     (snd (set_index_dir table_backend (Some ''cache'') (new_world False))))) = Inr (Some ''other'') \<and>
   calls (snd (set_index_dir table_backend (Some ''other'')
     (snd (set_index_dir table_backend (Some ''cache'') (new_world False))))) =
     [InitializeIndex, InitializeIndex]"
proof -
  have c: "calls (new_world False) = []"
    by (simp add: new_world_def)
  have k: "initialize_keeps_index_dir (table_backend :: (string, string storage, storage_error) backend)"
    by (rule table_initialize_keeps_index_dir)
  from k c
    get_after_set_index_dir [of table_backend "Some ''cache''" "new_world False" "Some ''other''"]
  show ?thesis by simp
qed

subsection \<open>Errors\<close>

text \<open>
  C7. An error raised by an abstract method is the outcome of the method that called
  it, unchanged, and nothing follows it. When \<open>load\<close> raises \<open>e\<close>, each of \<open>has\<close>, \<open>known\<close>
  and \<open>add\<close> raises \<open>e\<close> having made that one call: no second \<open>load\<close>, no reading of the
  clock, no \<open>save\<close>. When \<open>load\<close> returns and \<open>save\<close> raises \<open>e\<close>, \<open>add\<close> raises \<open>e\<close> having
  made those two calls. When \<open>_initialize_index\<close> raises \<open>e\<close>, \<open>set_index_dir\<close> raises \<open>e\<close>
  having made that one call. The object is left as the failing method left it.
\<close>

theorem storage_errors_propagate:
  "(load be (obj w) = (Inl e, ob) \<longrightarrow>
      has be x w = (Inl e, w\<lparr>obj := ob, calls := calls w @ [Load]\<rparr>) \<and>
      known be w = (Inl e, w\<lparr>obj := ob, calls := calls w @ [Load]\<rparr>) \<and>
      add be x w = (Inl e, w\<lparr>obj := ob, calls := calls w @ [Load]\<rparr>)) \<and>
   (load be (obj w) = (Inr index, ob) \<and>
    save be ob (index @ [\<lparr>identifier = x, timestamp = clock w (ticks w)\<rparr>]) = (Inl e, ob') \<longrightarrow>
      add be x w =
        (Inl e, w\<lparr>obj := ob', ticks := Suc (ticks w),
                  calls := calls w @
                    [Load, Save (index @ [\<lparr>identifier = x, timestamp = clock w (ticks w)\<rparr>])]\<rparr>)) \<and>
   (initialize_index be ((obj w)\<lparr>index_dir := Bound d\<rparr>) = (Inl e, ob) \<longrightarrow>
      set_index_dir be d w = (Inl e, w\<lparr>obj := ob, calls := calls w @ [InitializeIndex]\<rparr>))"
proof (intro conjI impI)
  assume "load be (obj w) = (Inl e, ob)"
  then show "has be x w = (Inl e, w\<lparr>obj := ob, calls := calls w @ [Load]\<rparr>)"
    and "known be w = (Inl e, w\<lparr>obj := ob, calls := calls w @ [Load]\<rparr>)"
    and "add be x w = (Inl e, w\<lparr>obj := ob, calls := calls w @ [Load]\<rparr>)"
    by (simp_all add: has_def known_def add_def call_load_eq)
next
  assume "load be (obj w) = (Inr index, ob) \<and>
    save be ob (index @ [\<lparr>identifier = x, timestamp = clock w (ticks w)\<rparr>]) = (Inl e, ob')"
  then show "add be x w =
        (Inl e, w\<lparr>obj := ob', ticks := Suc (ticks w),
                  calls := calls w @
                    [Load, Save (index @ [\<lparr>identifier = x, timestamp = clock w (ticks w)\<rparr>])]\<rparr>)"
    by (simp add: add_loaded)
next
  assume "initialize_index be ((obj w)\<lparr>index_dir := Bound d\<rparr>) = (Inl e, ob)"
  then show "set_index_dir be d w = (Inl e, w\<lparr>obj := ob, calls := calls w @ [InitializeIndex]\<rparr>)"
    by (simp add: set_index_dir_eq)
qed

theorem storage_errors_propagate_witness:
  "fst (load table_backend (obj (snd (set_index_dir table_backend (Some ''cache'') (new_world True))))) =
     Inl StorageUnavailable \<and>
   fst (has table_backend ''a'' (snd (set_index_dir table_backend (Some ''cache'') (new_world True)))) =
     Inl StorageUnavailable \<and>
   fst (known table_backend (snd (set_index_dir table_backend (Some ''cache'') (new_world True)))) =
     Inl StorageUnavailable \<and>
   add table_backend ''a'' (snd (set_index_dir table_backend (Some ''cache'') (new_world True))) =
     (Inl StorageUnavailable,
      \<lparr>obj = \<lparr>index_dir = Bound (Some ''cache''),
               backing = \<lparr>files = (\<lambda>d. None), locked = True\<rparr>\<rparr>,
        clock = example_clock, ticks = 0, calls = [InitializeIndex, Load]\<rparr>) \<and>
   load table_backend (obj locked_world) = (Inr [], obj locked_world) \<and>
   save table_backend (obj locked_world) [\<lparr>identifier = ''a'', timestamp = example_clock 0\<rparr>] =
     (Inl StorageUnwritable, obj locked_world) \<and>
   add table_backend ''a'' locked_world =
     (Inl StorageUnwritable,
      locked_world\<lparr>ticks := 1, calls := [InitializeIndex, Load,
         Save [\<lparr>identifier = ''a'', timestamp = example_clock 0\<rparr>]]\<rparr>) \<and>
   set_index_dir table_backend (Some ''cache'') (new_world True) =
     (Inl StorageUnwritable,
      \<lparr>obj = \<lparr>index_dir = Bound (Some ''cache''),
               backing = \<lparr>files = (\<lambda>d. None), locked = True\<rparr>\<rparr>,
        clock = example_clock, ticks = 0, calls = [InitializeIndex]\<rparr>)"
proof -
  let ?w = "snd (set_index_dir table_backend (Some ''cache'') (new_world True))"
  have w: "?w = \<lparr>obj = \<lparr>index_dir = Bound (Some ''cache''),
               backing = \<lparr>files = (\<lambda>d. None), locked = True\<rparr>\<rparr>,
        clock = example_clock, ticks = 0, calls = [InitializeIndex]\<rparr>"
    unfolding failed_world_eq by simp
  have ld: "load table_backend (obj ?w) = (Inl StorageUnavailable, obj ?w)"
    unfolding w by (simp add: table_backend_sel table_load_def)
  have ld': "load table_backend (obj locked_world) = (Inr [], obj locked_world)"
    by (simp add: locked_world_eq table_backend_sel table_load_def)
  have sv: "save table_backend (obj locked_world)
      ([] @ [\<lparr>identifier = ''a'', timestamp = clock locked_world (ticks locked_world)\<rparr>]) =
     (Inl StorageUnwritable, obj locked_world)"
    by (simp add: locked_world_eq table_backend_sel table_save_def)
  have ini: "initialize_index table_backend ((obj (new_world True))\<lparr>index_dir := Bound (Some ''cache'')\<rparr>) =
     (Inl StorageUnwritable, \<lparr>index_dir = Bound (Some ''cache''),
               backing = \<lparr>files = (\<lambda>d. None), locked = True\<rparr>\<rparr>)"
    by (simp add: new_world_def table_backend_sel table_initialize_index_def table_save_def)
  note thm1 = storage_errors_propagate [of table_backend ?w StorageUnavailable "obj ?w" "''a''"]
  note thm2 = storage_errors_propagate [of table_backend locked_world StorageUnwritable _ "''a''"
      "[]" "obj locked_world"]
  note thm3 = storage_errors_propagate [of table_backend "new_world True" StorageUnwritable
      "\<lparr>index_dir = Bound (Some ''cache''), backing = \<lparr>files = (\<lambda>d. None), locked = True\<rparr>\<rparr>"
      _ _ _ "Some ''cache''"]
  have p1: "has table_backend ''a'' ?w = (Inl StorageUnavailable, ?w\<lparr>obj := obj ?w, calls := calls ?w @ [Load]\<rparr>)"
    and p2: "known table_backend ?w = (Inl StorageUnavailable, ?w\<lparr>obj := obj ?w, calls := calls ?w @ [Load]\<rparr>)"
    and p3: "add table_backend ''a'' ?w = (Inl StorageUnavailable, ?w\<lparr>obj := obj ?w, calls := calls ?w @ [Load]\<rparr>)"
    using thm1 ld by blast+
  have p4: "add table_backend ''a'' locked_world =
        (Inl StorageUnwritable, locked_world\<lparr>obj := obj locked_world, ticks := Suc (ticks locked_world),
           calls := calls locked_world @
             [Load, Save ([] @ [\<lparr>identifier = ''a'', timestamp = clock locked_world (ticks locked_world)\<rparr>])]\<rparr>)"
    using thm2 ld' sv by blast
  have p5: "set_index_dir table_backend (Some ''cache'') (new_world True) =
      (Inl StorageUnwritable, (new_world True)\<lparr>obj := \<lparr>index_dir = Bound (Some ''cache''),
               backing = \<lparr>files = (\<lambda>d. None), locked = True\<rparr>\<rparr>,
           calls := calls (new_world True) @ [InitializeIndex]\<rparr>)"
    using thm3 ini by blast
  show ?thesis
    apply (intro conjI)
    subgoal using ld by simp
    subgoal using p1 by simp
    subgoal using p2 by simp
    subgoal unfolding p3 unfolding w by simp
    subgoal by (rule ld')
    subgoal using sv by (simp add: locked_world_eq)
    subgoal unfolding p4 by (simp add: locked_world_eq)
    subgoal unfolding p5 by (simp add: new_world_def)
    done
qed

subsection \<open>What \<open>has\<close> and \<open>known\<close> leave unchanged\<close>

text \<open>
  C8. \<open>has\<close> and \<open>known\<close> change the world in one way only: the call of \<open>load\<close>, logged,
  with whatever \<open>load\<close> itself does to the object. They bind no attribute, do not read
  the clock, and call neither \<open>save\<close> nor \<open>_initialize_index\<close>. So with a backend whose
  \<open>load\<close> leaves the object as it is, the object after \<open>has\<close> or \<open>known\<close> is the object
  before: \<open>get_index_dir()\<close> gives the same and \<open>load\<close> gives the same.
\<close>

theorem has_known_read_only:
  "snd (has be x w) = w\<lparr>obj := snd (load be (obj w)), calls := calls w @ [Load]\<rparr> \<and>
   snd (known be w) = w\<lparr>obj := snd (load be (obj w)), calls := calls w @ [Load]\<rparr> \<and>
   (load_read_only be \<longrightarrow>
      obj (snd (has be x w)) = obj w \<and> obj (snd (known be w)) = obj w \<and>
      get_index_dir (snd (has be x w)) = get_index_dir w \<and>
      get_index_dir (snd (known be w)) = get_index_dir w \<and>
      load be (obj (snd (has be x w))) = load be (obj w) \<and>
      load be (obj (snd (known be w))) = load be (obj w))"
  by (simp add: has_world known_world load_read_only_def get_index_dir_def)

theorem has_known_read_only_witness:
  "load_read_only (table_backend :: (string, string storage, storage_error) backend) \<and>
   snd (has table_backend ''file1'' (snd (add_all table_backend [''file1'', ''file2'', ''file1''] empty_world))) =
     (snd (add_all table_backend [''file1'', ''file2'', ''file1''] empty_world))
       \<lparr>calls := calls (snd (add_all table_backend [''file1'', ''file2'', ''file1''] empty_world)) @ [Load]\<rparr> \<and>
   snd (known table_backend (snd (add_all table_backend [''file1'', ''file2'', ''file1''] empty_world))) =
     (snd (add_all table_backend [''file1'', ''file2'', ''file1''] empty_world))
       \<lparr>calls := calls (snd (add_all table_backend [''file1'', ''file2'', ''file1''] empty_world)) @ [Load]\<rparr> \<and>
   get_index_dir (snd (has table_backend ''file1''
       (snd (add_all table_backend [''file1'', ''file2'', ''file1''] empty_world)))) = Inr (Some ''cache'') \<and>
   fst (load table_backend (obj (snd (known table_backend
       (snd (add_all table_backend [''file1'', ''file2'', ''file1''] empty_world)))))) =
     Inr [\<lparr>identifier = ''file1'', timestamp = example_clock 0\<rparr>,
          \<lparr>identifier = ''file2'', timestamp = example_clock 1\<rparr>,
          \<lparr>identifier = ''file1'', timestamp = example_clock 2\<rparr>]"
proof -
  let ?w = "snd (add_all table_backend [''file1'', ''file2'', ''file1''] empty_world)"
  have ro: "load_read_only (table_backend :: (string, string storage, storage_error) backend)"
    by (rule table_load_read_only)
  have ld: "load table_backend (obj ?w) =
     (Inr [\<lparr>identifier = ''file1'', timestamp = example_clock 0\<rparr>,
           \<lparr>identifier = ''file2'', timestamp = example_clock 1\<rparr>,
           \<lparr>identifier = ''file1'', timestamp = example_clock 2\<rparr>], obj ?w)"
    unfolding world_after_adds by (simp add: table_backend_sel table_load_def)
  have g: "get_index_dir ?w = Inr (Some ''cache'')"
    unfolding world_after_adds by (simp add: get_index_dir_def)
  from ro ld g has_known_read_only [of table_backend "''file1''" ?w]
  show ?thesis by (simp del: add_all.simps add: get_index_dir_def)
qed

subsection \<open>Timestamps\<close>

lemma strftime_TIME_FORMAT:
  "datetime_in_range t \<Longrightarrow>
   strftime TIME_FORMAT t =
     Some (four_digits (year t) @ ''-'' @ two_digits (month t) @ ''-'' @ two_digits (day t) @
           '':'' @ two_digits (hour t) @ '':'' @ two_digits (minute t) @ '':'' @
           two_digits (second t))"
  by (simp add: strftime_def TIME_FORMAT_def directive_def)

lemma example_clock_in_range: "datetime_in_range (example_clock 0)"
  by (simp add: datetime_in_range_def example_clock_def days_in_month_def)

lemma strftime_example:
  "strftime TIME_FORMAT (example_clock 0) = Some ''2024-01-02:03:04:00''"
  using strftime_TIME_FORMAT [OF example_clock_in_range]
  by (simp add: example_clock_def four_digits_def two_digits_def digit_def)

text \<open>
  C9, as the class has it. When \<open>load\<close> returns, the timestamp of the entry that \<open>add\<close>
  passes to \<open>save\<close> is the value \<open>current_time()\<close> returned, unchanged, microseconds
  included. \<open>TIME_FORMAT\<close> is \<open>%Y-%m-%d:%H:%M:%S\<close>. For a \<open>datetime\<close> with a year from 1000
  to 9999, the text formatted under \<open>TIME_FORMAT\<close> is the four digits of the year and
  the two digits of month, day, hour, minute and second, as \<open>YYYY-MM-DD:HH:MM:SS\<close>, 19
  characters, and it is the same whatever the microseconds are.
\<close>

theorem add_stores_clock_reading:
  "(load be (obj w) = (Inr index, ob) \<longrightarrow>
      calls (snd (add be x w)) =
        calls w @ [Load, Save (index @ [\<lparr>identifier = x, timestamp = clock w (ticks w)\<rparr>])]) \<and>
   TIME_FORMAT = ''%Y-%m-%d:%H:%M:%S'' \<and>
   (datetime_in_range t \<longrightarrow>
      strftime TIME_FORMAT t =
        Some (four_digits (year t) @ ''-'' @ two_digits (month t) @ ''-'' @ two_digits (day t) @
              '':'' @ two_digits (hour t) @ '':'' @ two_digits (minute t) @ '':'' @
              two_digits (second t)) \<and>
      map_option length (strftime TIME_FORMAT t) = Some 19) \<and>
   (datetime_in_range t \<and> u < 1000000 \<longrightarrow>
      strftime TIME_FORMAT (t\<lparr>microsecond := u\<rparr>) = strftime TIME_FORMAT t)"
proof (intro conjI impI)
  assume "load be (obj w) = (Inr index, ob)"
  then show "calls (snd (add be x w)) =
      calls w @ [Load, Save (index @ [\<lparr>identifier = x, timestamp = clock w (ticks w)\<rparr>])]"
    by (simp add: add_loaded)
next
  show "TIME_FORMAT = ''%Y-%m-%d:%H:%M:%S''"
    by (simp add: TIME_FORMAT_def)
next
  assume "datetime_in_range t"
  then show "strftime TIME_FORMAT t =
        Some (four_digits (year t) @ ''-'' @ two_digits (month t) @ ''-'' @ two_digits (day t) @
              '':'' @ two_digits (hour t) @ '':'' @ two_digits (minute t) @ '':'' @
              two_digits (second t))"
    by (rule strftime_TIME_FORMAT)
next
  assume "datetime_in_range t"
  then show "map_option length (strftime TIME_FORMAT t) = Some 19"
    by (simp add: strftime_TIME_FORMAT four_digits_def two_digits_def)
next
  assume h: "datetime_in_range t \<and> u < 1000000"
  then have "datetime_in_range (t\<lparr>microsecond := u\<rparr>)"
    by (simp add: datetime_in_range_def)
  with h show "strftime TIME_FORMAT (t\<lparr>microsecond := u\<rparr>) = strftime TIME_FORMAT t"
    by (simp add: strftime_TIME_FORMAT)
qed

theorem add_stores_clock_reading_witness:
  "load table_backend (obj empty_world) = (Inr [], obj empty_world) \<and>
   datetime_in_range (example_clock 0) \<and>
   calls (snd (add table_backend ''a'' empty_world)) =
     [InitializeIndex, Load, Save [\<lparr>identifier = ''a'', timestamp = example_clock 0\<rparr>]] \<and>
   strftime TIME_FORMAT (example_clock 0) = Some ''2024-01-02:03:04:00'' \<and>
   strftime TIME_FORMAT ((example_clock 0)\<lparr>microsecond := 0\<rparr>) = Some ''2024-01-02:03:04:00''"
proof -
  have ld: "load table_backend (obj empty_world) = (Inr [], obj empty_world)"
    by (simp add: empty_world_eq table_backend_sel table_load_def)
  have c: "calls empty_world = [InitializeIndex]" "clock empty_world (ticks empty_world) = example_clock 0"
    by (simp_all add: empty_world_eq)
  note t = add_stores_clock_reading [of table_backend empty_world "[]" "obj empty_world" "''a''"
      "example_clock 0" 0]
  have s: "calls (snd (add table_backend ''a'' empty_world)) =
      [InitializeIndex, Load, Save [\<lparr>identifier = ''a'', timestamp = example_clock 0\<rparr>]]"
    using ld t [THEN conjunct1] by (simp add: c)
  have m: "strftime TIME_FORMAT ((example_clock 0)\<lparr>microsecond := 0\<rparr>) =
      strftime TIME_FORMAT (example_clock 0)"
    using example_clock_in_range t [THEN conjunct2, THEN conjunct2, THEN conjunct2] by simp
  show ?thesis
    using ld example_clock_in_range s m by (simp add: strftime_example)
qed

text \<open>
  The entry \<open>add\<close> stores when the clock reads 03:04:00.250000 keeps the 250000
  microseconds: its timestamp has more than second precision.
\<close>

theorem add_timestamp_counterexample:
  "fst (load table_backend (obj (snd (add table_backend ''a'' empty_world)))) =
     Inr [\<lparr>identifier = ''a'',
           timestamp = \<lparr>year = 2024, month = 1, day = 2, hour = 3, minute = 4, second = 0,
                        microsecond = 250000\<rparr>\<rparr>] \<and>
   clock empty_world (ticks empty_world) =
     \<lparr>year = 2024, month = 1, day = 2, hour = 3, minute = 4, second = 0, microsecond = 250000\<rparr> \<and>
   microsecond (clock empty_world (ticks empty_world)) \<noteq> 0"
  unfolding world_after_add
  by (simp add: table_backend_sel table_load_def empty_world_eq example_clock_def)

subsection \<open>The constructor\<close>

text \<open>
  C10. The constructor calls \<open>set_index_dir\<close> with its argument, which is \<open>None\<close> when
  left out. So for every argument, constructing binds \<open>index_dir\<close> to it and runs
  \<open>_initialize_index\<close> once on the object so bound: the outcome of the constructor and
  the object afterwards are those of that call. With no argument the call runs on the
  object with \<open>index_dir\<close> bound to \<open>None\<close>: with a backend whose \<open>_initialize_index\<close>
  raises on \<open>None\<close>, the constructor without an argument raises.
\<close>

theorem init_calls_initialize_index:
  "IndexBase_init be arg w = set_index_dir be (case arg of Omitted \<Rightarrow> None | Passed d \<Rightarrow> d) w \<and>
   IndexBase_init be arg w =
     (fst (initialize_index be
        ((obj w)\<lparr>index_dir := Bound (case arg of Omitted \<Rightarrow> None | Passed d \<Rightarrow> d)\<rparr>)),
      w\<lparr>obj := snd (initialize_index be
             ((obj w)\<lparr>index_dir := Bound (case arg of Omitted \<Rightarrow> None | Passed d \<Rightarrow> d)\<rparr>)),
        calls := calls w @ [InitializeIndex]\<rparr>) \<and>
   IndexBase_init be (Passed d) w =
     (fst (initialize_index be ((obj w)\<lparr>index_dir := Bound d\<rparr>)),
      w\<lparr>obj := snd (initialize_index be ((obj w)\<lparr>index_dir := Bound d\<rparr>)),
        calls := calls w @ [InitializeIndex]\<rparr>) \<and>
   calls (snd (IndexBase_init be arg w)) = calls w @ [InitializeIndex] \<and>
   IndexBase_init be Omitted w =
     (fst (initialize_index be ((obj w)\<lparr>index_dir := Bound None\<rparr>)),
      w\<lparr>obj := snd (initialize_index be ((obj w)\<lparr>index_dir := Bound None\<rparr>)),
        calls := calls w @ [InitializeIndex]\<rparr>) \<and>
   (fst (initialize_index be ((obj w)\<lparr>index_dir := Bound None\<rparr>)) = Inl e \<longrightarrow>
      fst (IndexBase_init be Omitted w) = Inl e)"
  by (simp add: IndexBase_init_def set_index_dir_eq)

theorem init_calls_initialize_index_witness:
  "fst (initialize_index table_backend ((obj (new_world False))\<lparr>index_dir := Bound None\<rparr>)) =
     Inl StorageUnavailable \<and>
   fst (IndexBase_init table_backend Omitted (new_world False)) = Inl StorageUnavailable \<and>
   calls (snd (IndexBase_init table_backend Omitted (new_world False))) = [InitializeIndex] \<and>
   get_index_dir (snd (IndexBase_init table_backend Omitted (new_world False))) = Inr None \<and>
   fst (IndexBase_init table_backend (Passed (Some ''cache'')) (new_world False)) = Inr () \<and>
   get_index_dir (snd (IndexBase_init table_backend (Passed (Some ''cache'')) (new_world False))) =
     Inr (Some ''cache'') \<and>
   calls (snd (IndexBase_init table_backend (Passed (Some ''cache'')) (new_world False))) =
     [InitializeIndex] \<and>
   fst (load table_backend
     (obj (snd (IndexBase_init table_backend (Passed (Some ''cache'')) (new_world False))))) = Inr []"
proof -
  have i: "initialize_index table_backend ((obj (new_world False))\<lparr>index_dir := Bound None\<rparr>) =
     (Inl StorageUnavailable, (obj (new_world False))\<lparr>index_dir := Bound None\<rparr>)"
    by (simp add: table_backend_sel table_initialize_index_def)
  have j: "initialize_index table_backend
      ((obj (new_world False))\<lparr>index_dir := Bound (Some ''cache'')\<rparr>) =
     (Inr (), \<lparr>index_dir = Bound (Some ''cache''),
               backing = \<lparr>files = (\<lambda>d. None)(''cache'' \<mapsto> []), locked = False\<rparr>\<rparr>)"
    by (simp add: new_world_def table_backend_sel table_initialize_index_def table_save_def)
  have c: "calls (new_world False) = []"
    by (simp add: new_world_def)
  note t = init_calls_initialize_index [of table_backend Omitted "new_world False" _ StorageUnavailable]
  note t' = init_calls_initialize_index [of table_backend Omitted "new_world False" "Some ''cache''"]
  have r: "fst (IndexBase_init table_backend Omitted (new_world False)) = Inl StorageUnavailable"
    using i t [THEN conjunct2, THEN conjunct2, THEN conjunct2, THEN conjunct2, THEN conjunct2]
    by simp
  have e: "snd (IndexBase_init table_backend Omitted (new_world False)) =
      (new_world False)\<lparr>obj := (obj (new_world False))\<lparr>index_dir := Bound None\<rparr>,
        calls := [InitializeIndex]\<rparr>"
    using t [THEN conjunct2, THEN conjunct2, THEN conjunct2, THEN conjunct2, THEN conjunct1]
    by (simp add: i c)
  have p: "IndexBase_init table_backend (Passed (Some ''cache'')) (new_world False) =
      (Inr (), (new_world False)\<lparr>obj := \<lparr>index_dir = Bound (Some ''cache''),
               backing = \<lparr>files = (\<lambda>d. None)(''cache'' \<mapsto> []), locked = False\<rparr>\<rparr>,
        calls := [InitializeIndex]\<rparr>)"
    using t' [THEN conjunct2, THEN conjunct2, THEN conjunct1] by (simp add: j c)
  have f1: "fst (initialize_index table_backend
      ((obj (new_world False))\<lparr>index_dir := Bound None\<rparr>)) = Inl StorageUnavailable"
    by (simp add: i)
  have f2: "calls (snd (IndexBase_init table_backend Omitted (new_world False))) = [InitializeIndex]"
    and f3: "get_index_dir (snd (IndexBase_init table_backend Omitted (new_world False))) = Inr None"
    by (simp_all add: e get_index_dir_def)
  have f4: "fst (IndexBase_init table_backend (Passed (Some ''cache'')) (new_world False)) = Inr ()"
    and f5: "get_index_dir (snd (IndexBase_init table_backend (Passed (Some ''cache''))
      (new_world False))) = Inr (Some ''cache'')"
    and f6: "calls (snd (IndexBase_init table_backend (Passed (Some ''cache'')) (new_world False))) =
      [InitializeIndex]"
    and f7: "fst (load table_backend
      (obj (snd (IndexBase_init table_backend (Passed (Some ''cache'')) (new_world False))))) = Inr []"
    by (simp_all add: p get_index_dir_def table_backend_sel table_load_def)
  from f1 r f2 f3 f4 f5 f6 f7 show ?thesis
    by blast
qed

end
